theory Spec2Isabelle
  imports Complex_Main "HOL-Library.AList"
begin

section \<open>Python values, dictionaries and results\<close>

text \<open>
  A Python float: a finite value other than \<open>-0.0\<close>, given by the real number it
  stands for (\<open>Finite 0\<close> is \<open>0.0\<close>), or one of \<open>-0.0\<close>, \<open>inf\<close>, \<open>-inf\<close> and
  \<open>nan\<close>. The arithmetic of floats is not defined here: it is the interpreter's, and
  the program reaches it through the builtins of the record \<open>world\<close> below.
\<close>

datatype pyfloat = Finite real | NegZero | PosInf | NegInf | NaN

text \<open>
  The scalar values a metadata mapping of this program holds (Chroma accepts strings,
  integers, floats and booleans; JSON adds null).
\<close>

datatype pyval = VNone | VBool bool | VInt int | VFloat pyfloat | VStr string

text \<open>A dict is an association list with distinct keys, in insertion order.\<close>

type_synonym pydict = "(string \<times> pyval) list"

text \<open>Python truthiness, as \<open>if v:\<close> tests it.\<close>

fun truthy :: "pyval \<Rightarrow> bool" where
  "truthy VNone = False"
| "truthy (VBool b) = b"
| "truthy (VInt i) = (i \<noteq> 0)"
| "truthy (VFloat x) = (x \<noteq> Finite 0 \<and> x \<noteq> NegZero)"
| "truthy (VStr s) = (s \<noteq> [])"

text \<open>
  \<open>d.get(k)\<close>, \<open>d.get(k, default)\<close> and \<open>d.update(m)\<close>, which sets the keys
  of \<open>m\<close> in \<open>d\<close> one after the other.
\<close>

definition dict_get :: "pydict \<Rightarrow> string \<Rightarrow> pyval option" where
  "dict_get d k = map_of d k"

definition dict_get_default :: "pydict \<Rightarrow> string \<Rightarrow> pyval \<Rightarrow> pyval" where
  "dict_get_default d k dflt = (case map_of d k of Some v \<Rightarrow> v | None \<Rightarrow> dflt)"

definition dict_update :: "pydict \<Rightarrow> pydict \<Rightarrow> pydict" where
  "dict_update d m = fold (\<lambda>(k, v). AList.update k v) m d"

text \<open>\<open>str(n)\<close> for an integer, as an f-string renders it.\<close>

definition digit_char :: "nat \<Rightarrow> char" where
  "digit_char n = ''0123456789'' ! n"

fun str_of_nat :: "nat \<Rightarrow> string" where
  "str_of_nat n =
     (if n < 10 then [digit_char n] else str_of_nat (n div 10) @ [digit_char (n mod 10)])"

declare str_of_nat.simps [simp del]

definition str_of_int :: "int \<Rightarrow> string" where
  "str_of_int i = (if i < 0 then CHR ''-'' # str_of_nat (nat (- i)) else str_of_nat (nat i))"

text \<open>
  \<open>str(v)\<close> inside an f-string. The rendering of a float (Python's shortest
  round-trip repr) is a parameter \<open>fstr\<close>.
\<close>

fun py_str :: "(pyfloat \<Rightarrow> string) \<Rightarrow> pyval \<Rightarrow> string" where
  "py_str fstr VNone = ''None''"
| "py_str fstr (VBool b) = (if b then ''True'' else ''False'')"
| "py_str fstr (VInt i) = str_of_int i"
| "py_str fstr (VFloat x) = fstr x"
| "py_str fstr (VStr s) = s"

text \<open>The exceptions of the program, and the outcome of a call that may raise.\<close>

datatype error =
    ValueError string
  | TypeError
  | NormalizationError string
  | FetchError string
  | IndexError string
  | ProviderError string

datatype 'a result = Raise error | Return 'a

section \<open>The engine state\<close>

text \<open>langchain's \<open>Document\<close>: a text unit with its metadata.\<close>

record Document =
  page_content :: string
  metadata :: pydict

text \<open>
  The file \<open>document_metadata.json\<close> of the persistence directory: absent, unreadable
  as JSON, or holding a registry.
\<close>

datatype metadata_file = No_file | Corrupt_file | Json_file "(string \<times> pydict) list"

text \<open>
  \<open>RAGEngine\<close>: the fields of the object that the claims read, together with the two
  things it keeps on disk (the Chroma collection, as a mapping from unit id to unit, and
  the metadata file) and the conversation memory of the chain.
\<close>

record RAGEngine =
  vector_store :: "(string \<times> Document) list"
  current_web_ids :: "string set"
  latest_document_id :: "string option"
  document_metadata :: "(string \<times> pydict) list"
  metadata_path :: metadata_file
  memory :: "(string \<times> string) list"

text \<open>
  What the world outside the repository supplies to one call: the uuid of
  \<open>uuid.uuid4()\<close>, the clock, the ids Chroma gives to units added without ids, whether
  the collection accepts the write and whether the metadata file can be written; the
  parsers behind \<open>process_file\<close>, the page fetch, the ranking of the similarity search,
  the language model, and three builtins of the interpreter: the rendering of a float
  in an f-string, \<open>sum\<close> over a sequence of values (it starts from the integer 0 and
  raises \<open>TypeError\<close> at a value that is not a number) and the true division of a
  value by a positive length, both with the rounding of the machine's floats.
\<close>

record web_page =
  status :: nat
  chunks :: "string list"
  title :: "string option"

text \<open>
  A \<open>Path\<close> with what \<open>ingest_file\<close> reads of it: \<open>file_path.name\<close>,
  \<open>file_path.suffix.lower()\<close>, \<open>str(file_path)\<close> and \<open>os.path.getsize\<close>.
\<close>

record file_path =
  fp_name :: string
  fp_suffix :: string
  fp_str :: string
  fp_size :: int

record world =
  new_uuid :: string
  now :: string
  chroma_ids :: "nat \<Rightarrow> string"
  store_ok :: bool
  save_ok :: bool
  processor :: "file_path \<Rightarrow> Document list result"
  fetch :: "string \<Rightarrow> web_page result"
  rank :: "string \<Rightarrow> (string \<times> Document) list \<Rightarrow> string list"
  llm :: "string \<Rightarrow> Document list \<Rightarrow> (string \<times> string) list \<Rightarrow> string result"
  float_str :: "pyfloat \<Rightarrow> string"
  py_sum :: "pyval list \<Rightarrow> pyval result"
  py_truediv :: "pyval \<Rightarrow> nat \<Rightarrow> pyfloat result"

subsection \<open>The Chroma collection\<close>

text \<open>
  \<open>vector_store.add_documents(documents, ids)\<close> upserts each unit under its id;
  \<open>_collection.delete(ids)\<close> removes the units with these ids.
\<close>

definition vs_add_documents ::
  "string list \<Rightarrow> Document list \<Rightarrow> (string \<times> Document) list \<Rightarrow> (string \<times> Document) list" where
  "vs_add_documents ids docs store = AList.updates ids docs store"

definition vs_delete :: "string set \<Rightarrow> (string \<times> Document) list \<Rightarrow> (string \<times> Document) list" where
  "vs_delete ids store = filter (\<lambda>(i, d). i \<notin> ids) store"

section \<open>Engine construction and the registry file\<close>

text \<open>\<open>RAGEngine._load_document_metadata\<close> (rag\_engine.py, lines 173 to 183).\<close>

definition load_document_metadata :: "RAGEngine \<Rightarrow> RAGEngine" where
  "load_document_metadata s =
     (case metadata_path s of
        No_file \<Rightarrow> s
      | Json_file reg \<Rightarrow> s\<lparr>document_metadata := reg\<rparr>
      | Corrupt_file \<Rightarrow> s\<lparr>document_metadata := []\<rparr>)"

text \<open>\<open>RAGEngine._save_document_metadata\<close> (lines 185 to 193): a failed write is logged only.\<close>

definition save_document_metadata :: "world \<Rightarrow> RAGEngine \<Rightarrow> RAGEngine" where
  "save_document_metadata w s =
     (if save_ok w then s\<lparr>metadata_path := Json_file (document_metadata s)\<rparr> else s)"

text \<open>
  \<open>RAGEngine.__init__\<close> (lines 26 to 55) opened on a persistence directory that holds
  the collection \<open>store\<close> and the metadata file \<open>mfile\<close>. A missing \<open>GROQ_API_KEY\<close>
  raises \<open>ValueError\<close>.
\<close>

definition RAGEngine_init ::
  "string option \<Rightarrow> (string \<times> Document) list \<Rightarrow> metadata_file \<Rightarrow> RAGEngine result" where
  "RAGEngine_init api_key store mfile =
     (case api_key of
        None \<Rightarrow> Raise (ValueError ''GROQ_API_KEY environment variable not found'')
      | Some k \<Rightarrow>
          if k = [] then Raise (ValueError ''GROQ_API_KEY environment variable not found'')
          else Return (load_document_metadata
                 \<lparr>vector_store = store, current_web_ids = {}, latest_document_id = None,
                  document_metadata = [], metadata_path = mfile, memory = []\<rparr>))"

section \<open>Ingestion\<close>

text \<open>
  The loop of \<open>RAGEngine.add_documents\<close> over the units (lines 208 to 212): the two
  reserved keys are set first, then the caller's mapping is merged over them.
\<close>

definition stamp :: "string \<Rightarrow> string \<Rightarrow> pydict option \<Rightarrow> Document \<Rightarrow> Document" where
  "stamp source_type doc_id md doc =
     (let m1 = AList.update ''source_type'' (VStr source_type) (metadata doc);
          m2 = AList.update ''document_id'' (VStr doc_id) m1;
          m3 = (case md of None \<Rightarrow> m2 | Some m \<Rightarrow> if m \<noteq> [] then dict_update m2 m else m2)
      in doc\<lparr>metadata := m3\<rparr>)"

text \<open>The registry entry of lines 215 to 219.\<close>

definition registry_entry :: "string \<Rightarrow> string \<Rightarrow> pydict option \<Rightarrow> pydict" where
  "registry_entry source_type ts md =
     dict_update [(''source_type'', VStr source_type), (''timestamp'', VStr ts)]
       (case md of None \<Rightarrow> [] | Some m \<Rightarrow> m)"

text \<open>
  \<open>RAGEngine.add_documents\<close> (lines 195 to 231). The registry and
  \<open>latest_document_id\<close> are written before the collection is; when the collection raises,
  the exception is raised again and these writes stay.
\<close>

definition add_documents ::
  "world \<Rightarrow> RAGEngine \<Rightarrow> Document list \<Rightarrow> string \<Rightarrow> pydict option \<Rightarrow> unit result \<times> RAGEngine" where
  "add_documents w s documents source_type md =
     (let doc_id = new_uuid w;
          documents' = map (stamp source_type doc_id md) documents;
          s1 = s\<lparr>document_metadata :=
                  AList.update doc_id (registry_entry source_type (now w) md) (document_metadata s),
                latest_document_id := Some doc_id\<rparr>
      in if \<not> store_ok w then (Raise (IndexError ''add_documents''), s1)
         else
           (let s2 = s1\<lparr>vector_store :=
                       vs_add_documents (map (chroma_ids w) [0..<length documents']) documents'
                         (vector_store s1)\<rparr>
            in (Return (), save_document_metadata w s2)))"

text \<open>
  \<open>RAGEngine._cleanup_web_results\<close> (lines 273 to 293). \<open>vector_store.get()\<close>
  answers with a mapping that has the key \<open>ids\<close>, so the test of line 279 holds.
\<close>

definition cleanup_web_results :: "RAGEngine \<Rightarrow> RAGEngine" where
  "cleanup_web_results s =
     (if current_web_ids s \<noteq> {} then
        (let all_ids = map fst (vector_store s);
             docs_to_keep = filter (\<lambda>idx. idx \<notin> current_web_ids s) all_ids;
             store' = (if docs_to_keep \<noteq> [] then vs_delete (current_web_ids s) (vector_store s)
                       else vector_store s)
         in s\<lparr>vector_store := store', current_web_ids := {}\<rparr>)
      else s)"

text \<open>\<open>process_file\<close> of core/ingestion.py (lines 172 to 198): dispatch on the extension.\<close>

definition supported_suffixes :: "string list" where
  "supported_suffixes = [''.txt'', ''.md'', ''.pdf'', ''.docx'', ''.png'', ''.jpg'', ''.jpeg'']"

definition process_file :: "world \<Rightarrow> file_path \<Rightarrow> Document list result" where
  "process_file w f =
     (if fp_suffix f \<in> set supported_suffixes then processor w f
      else Raise (ValueError (''Unsupported file type: '' @ fp_suffix f)))"

text \<open>\<open>ingest_file\<close> (lines 200 to 237): every exception becomes the result \<open>False\<close>.\<close>

definition ingest_file :: "world \<Rightarrow> RAGEngine \<Rightarrow> file_path \<Rightarrow> bool result \<times> RAGEngine" where
  "ingest_file w s f =
     (case process_file w f of
        Raise e \<Rightarrow> (Return False, s)
      | Return documents \<Rightarrow>
          if documents \<noteq> [] then
            (let md = [(''file'', VStr (fp_name f)), (''source'', VStr (fp_str f)),
                       (''ingestion_time'', VStr (now w)), (''file_type'', VStr (fp_suffix f)),
                       (''file_size'', VInt (fp_size f)),
                       (''total_chunks'', VInt (int (length documents)))]
             in case add_documents w s documents ''file'' (Some md) of
                  (Raise e, s') \<Rightarrow> (Return False, s')
                | (Return u, s') \<Rightarrow> (Return True, s'))
          else (Return False, s))"

text \<open>
  \<open>ingest_web_page\<close> (lines 239 to 310). The units get the ids \<open>web_<url>_<i>\<close> and
  go to the collection directly, not through \<open>add_documents\<close>.
\<close>

definition web_doc_id :: "string \<Rightarrow> nat \<Rightarrow> string" where
  "web_doc_id url i = ''web_'' @ url @ ''_'' @ str_of_nat i"

definition web_document :: "string \<Rightarrow> string option \<Rightarrow> nat \<times> string \<Rightarrow> Document" where
  "web_document url ttl ic =
     \<lparr>page_content = snd ic,
      metadata = [(''source'', VStr ''web''), (''url'', VStr url), (''chunk'', VInt (int (fst ic))),
                  (''title'', VStr (case ttl of Some t \<Rightarrow> t | None \<Rightarrow> url)),
                  (''id'', VStr (web_doc_id url (fst ic)))]\<rparr>"

definition ingest_web_page :: "world \<Rightarrow> RAGEngine \<Rightarrow> string \<Rightarrow> bool result \<times> RAGEngine" where
  "ingest_web_page w s url =
     (let s1 = cleanup_web_results s
      in case fetch w url of
           Raise e \<Rightarrow> (Return False, s1)
         | Return page \<Rightarrow>
             if status page \<noteq> 200 then (Return False, s1)
             else
               (let doc_ids = map (web_doc_id url) [0..<length (chunks page)];
                    documents = map (web_document url (title page)) (enumerate 0 (chunks page))
                in if \<not> store_ok w then (Return False, s1)
                   else (Return True,
                         s1\<lparr>vector_store := vs_add_documents doc_ids documents (vector_store s1),
                            current_web_ids := current_web_ids s1 \<union> set doc_ids\<rparr>)))"

section \<open>The query pipeline\<close>

text \<open>
  Modelled from the spec: the Vector Index search and the retrieval chain are the Chroma
  and langchain libraries, which are not part of the repository. Section 4.3: filtering
  restricts the candidate set to the units whose metadata matches an exact-match
  predicate, before the nearest-neighbour stage; the search returns up to \<open>k\<close> units.
  The order of preference among the candidates (similarity and diversity) is the
  parameter \<open>rank\<close>, which names candidate ids in the order of selection.
\<close>

definition matches :: "pydict \<Rightarrow> Document \<Rightarrow> bool" where
  "matches flt d = list_all (\<lambda>(k, v). map_of (metadata d) k = Some v) flt"

definition vs_search ::
  "(string \<Rightarrow> (string \<times> Document) list \<Rightarrow> string list) \<Rightarrow> nat \<Rightarrow> pydict option \<Rightarrow> string \<Rightarrow>
   (string \<times> Document) list \<Rightarrow> Document list" where
  "vs_search rk k flt question store =
     (let candidates = (case flt of None \<Rightarrow> store
                        | Some f \<Rightarrow> filter (\<lambda>(i, d). matches f d) store)
      in take k (List.map_filter (map_of candidates) (rk question candidates)))"

text \<open>
  Modelled from the spec: section 4.5, steps 2 to 5. The chain retrieves up to six units,
  calls the model, and appends the turn to the memory only after the model has answered.
\<close>

definition chain_ainvoke ::
  "world \<Rightarrow> RAGEngine \<Rightarrow> string \<Rightarrow> pydict option \<Rightarrow> (string \<times> Document list) result \<times> RAGEngine" where
  "chain_ainvoke w s question flt =
     (let docs = vs_search (rank w) 6 flt question (vector_store s)
      in case llm w question docs (memory s) of
           Raise e \<Rightarrow> (Raise e, s)
         | Return a \<Rightarrow> (Return (a, docs), s\<lparr>memory := memory s @ [(question, a)]\<rparr>))"

text \<open>A citation (\<open>source_info\<close>, lines 350 to 360) and the response of \<open>query\<close>.\<close>

record source_info =
  si_file :: pyval
  si_chunk :: pyval
  si_page :: pyval
  si_relevance :: pyval
  si_metadata :: "pydict option"

record response =
  answer :: string
  sources :: "source_info list"
  confidence :: "pyfloat option"

definition no_documents_answer :: string where
  "no_documents_answer = ''No documents have been uploaded yet. Please upload a document first.''"

definition no_relevant_answer :: string where
  "no_relevant_answer = ''I could not find any relevant information in the available documents to answer your question. Please try rephrasing your question or ensure that the relevant document has been uploaded.''"

text \<open>
  Lines 303 to 312 and 324 to 325 of \<open>RAGEngine.query\<close>: what becomes of the caller's
  filter. \<open>None\<close> in \<open>Use_filter\<close> is a search without a filter (an empty mapping is
  falsy, so it is no filter either).
\<close>

datatype filter_resolution = Short_circuit | Use_filter "pydict option"

definition resolve_source_filter :: "RAGEngine \<Rightarrow> pydict option \<Rightarrow> filter_resolution" where
  "resolve_source_filter s source_filter =
     (case source_filter of
        None \<Rightarrow> Use_filter None
      | Some f \<Rightarrow>
          if f \<noteq> [] \<and> truthy (dict_get_default f ''latest'' VNone) then
            (case latest_document_id s of
               None \<Rightarrow> Short_circuit
             | Some d \<Rightarrow> if d \<noteq> [] then Use_filter (Some [(''document_id'', VStr d)])
                         else Short_circuit)
          else if f \<noteq> [] then Use_filter (Some f) else Use_filter None)"

text \<open>The composite key of line 346: \<open>f"{file}_{chunk}"\<close>.\<close>

definition chunk_id :: "(pyfloat \<Rightarrow> string) \<Rightarrow> Document \<Rightarrow> string" where
  "chunk_id fstr doc =
     py_str fstr (dict_get_default (metadata doc) ''file'' (VStr [])) @ ''_'' @
     py_str fstr (dict_get_default (metadata doc) ''chunk'' (VStr []))"

text \<open>Lines 350 to 360: the citation of one unit, with the registry entry of its document.\<close>

definition make_source_info :: "(string \<times> pydict) list \<Rightarrow> Document \<Rightarrow> source_info" where
  "make_source_info reg doc =
     \<lparr>si_file = dict_get_default (metadata doc) ''file'' (VStr []),
      si_chunk = dict_get_default (metadata doc) ''chunk'' (VStr []),
      si_page = dict_get_default (metadata doc) ''page'' (VStr []),
      si_relevance = dict_get_default (metadata doc) ''relevance'' (VFloat (Finite 1)),
      si_metadata =
        (case dict_get (metadata doc) ''document_id'' of
           Some (VStr d) \<Rightarrow> if d \<noteq> [] then map_of reg d else None
         | _ \<Rightarrow> None)\<rparr>"

text \<open>The loop of lines 343 to 362, with the set \<open>seen_chunks\<close> as an argument.\<close>

fun collect_sources ::
  "(pyfloat \<Rightarrow> string) \<Rightarrow> (string \<times> pydict) list \<Rightarrow> string set \<Rightarrow> Document list \<Rightarrow> source_info list" where
  "collect_sources fstr reg seen_chunks [] = []"
| "collect_sources fstr reg seen_chunks (doc # docs) =
     (if chunk_id fstr doc \<notin> seen_chunks
      then make_source_info reg doc #
           collect_sources fstr reg (insert (chunk_id fstr doc) seen_chunks) docs
      else collect_sources fstr reg seen_chunks docs)"

text \<open>
  \<open>RAGEngine.query\<close> (lines 295 to 376). Every citation has the key \<open>relevance\<close>,
  so \<open>s.get("relevance", 0)\<close> of line 366 is its value; the sum and the division are
  the interpreter's, and what they raise is raised by \<open>query\<close>.
\<close>

definition query ::
  "world \<Rightarrow> RAGEngine \<Rightarrow> string \<Rightarrow> pydict option \<Rightarrow> response result \<times> RAGEngine" where
  "query w s question source_filter =
     (case resolve_source_filter s source_filter of
        Short_circuit \<Rightarrow>
          (Return \<lparr>answer = no_documents_answer, sources = [], confidence = None\<rparr>, s)
      | Use_filter flt \<Rightarrow>
          (case chain_ainvoke w s question flt of
             (Raise e, s') \<Rightarrow> (Raise e, s')
           | (Return (a, source_documents), s') \<Rightarrow>
               (let srcs = collect_sources (float_str w) (document_metadata s') {} source_documents
                in if srcs \<noteq> [] then
                     (case py_sum w (map si_relevance srcs) of
                        Raise e \<Rightarrow> (Raise e, s')
                      | Return relevance_sum \<Rightarrow>
                          (case py_truediv w relevance_sum (length srcs) of
                             Raise e \<Rightarrow> (Raise e, s')
                           | Return avg_relevance \<Rightarrow>
                               (Return \<lparr>answer = a, sources = srcs,
                                        confidence = Some avg_relevance\<rparr>, s')))
                   else
                     (Return \<lparr>answer = (if a = [] then no_relevant_answer else a),
                              sources = [], confidence = Some (Finite 0)\<rparr>, s'))))"

text \<open>
  \<open>chat\<close> of core/chat.py (lines 7 to 60). A citation of \<open>query\<close> has the keys
  \<open>file\<close>, \<open>chunk\<close>, \<open>page\<close>, \<open>relevance\<close> and sometimes \<open>metadata\<close>; it never has
  \<open>source_type\<close> or \<open>document_id\<close>, so the test for a web source (line 30) is false,
  \<open>source.get("document_id", "")\<close> is the empty string and the registry lookup of
  line 47 (the key \<open>None\<close>) finds nothing.
\<close>

record chat_source =
  cs_type :: string
  cs_file :: pyval
  cs_page :: pyval
  cs_document_id :: pyval
  cs_relevance :: pyval
  cs_metadata :: "pydict option"

record chat_response =
  cr_answer :: string
  cr_sources :: "chat_source list"
  cr_confidence :: "pyfloat option"

definition format_source :: "source_info \<Rightarrow> chat_source" where
  "format_source src =
     \<lparr>cs_type = ''document'', cs_file = si_file src, cs_page = si_page src,
      cs_document_id = VStr [], cs_relevance = si_relevance src, cs_metadata = None\<rparr>"

definition chat ::
  "world \<Rightarrow> RAGEngine \<Rightarrow> string \<Rightarrow> pydict option \<Rightarrow> chat_response result \<times> RAGEngine" where
  "chat w s question source_filter =
     (case query w s question source_filter of
        (Raise e, s') \<Rightarrow> (Raise e, s')
      | (Return r, s') \<Rightarrow>
          (let formatted = map format_source (sources r)
           in if formatted = [] then
                (Return \<lparr>cr_answer = no_relevant_answer, cr_sources = [],
                         cr_confidence = Some (Finite 0)\<rparr>, s')
              else (Return \<lparr>cr_answer = answer r, cr_sources = formatted,
                             cr_confidence = None\<rparr>, s')))"

section \<open>Concrete inputs\<close>

text \<open>
  Sum and division without rounding, for the world of the examples: on integers,
  booleans and finite floats whose sums and quotients are machine floats, as all those
  below are, they are the interpreter's.
\<close>

fun number_value :: "pyval \<Rightarrow> real option" where
  "number_value (VInt i) = Some (real_of_int i)"
| "number_value (VBool b) = Some (if b then 1 else 0)"
| "number_value (VFloat (Finite r)) = Some r"
| "number_value (VFloat NegZero) = Some 0"
| "number_value v = None"

fun exact_int_sum :: "pyval list \<Rightarrow> int option" where
  "exact_int_sum [] = Some 0"
| "exact_int_sum (VInt i # vs) = map_option ((+) i) (exact_int_sum vs)"
| "exact_int_sum (VBool b # vs) = map_option ((+) (if b then 1 else 0)) (exact_int_sum vs)"
| "exact_int_sum (v # vs) = None"

fun exact_real_sum :: "pyval list \<Rightarrow> real option" where
  "exact_real_sum [] = Some 0"
| "exact_real_sum (v # vs) =
     (case number_value v of
        None \<Rightarrow> None
      | Some r \<Rightarrow> map_option ((+) r) (exact_real_sum vs))"

definition exact_sum :: "pyval list \<Rightarrow> pyval result" where
  "exact_sum vs =
     (case exact_int_sum vs of
        Some i \<Rightarrow> Return (VInt i)
      | None \<Rightarrow>
          (case exact_real_sum vs of
             Some t \<Rightarrow> Return (VFloat (Finite t))
           | None \<Rightarrow> Raise TypeError))"

definition exact_truediv :: "pyval \<Rightarrow> nat \<Rightarrow> pyfloat result" where
  "exact_truediv v n =
     (case number_value v of
        Some r \<Rightarrow> Return (Finite (r / real n))
      | None \<Rightarrow> Raise TypeError)"

text \<open>A world in which every collaborator answers, and the states used as examples below.\<close>

definition demo_world :: world where
  "demo_world =
     \<lparr>new_uuid = ''uuid-1'', now = ''t1'', chroma_ids = (\<lambda>i. ''unit-'' @ str_of_nat i),
      store_ok = True, save_ok = True,
      processor = (\<lambda>f. Return [\<lparr>page_content = ''Paris is the capital of France.'',
                                  metadata = [(''file'', VStr (fp_name f)), (''chunk'', VInt 0)]\<rparr>]),
      fetch = (\<lambda>u. Return \<lparr>status = 200, chunks = [''hello''], title = None\<rparr>),
      rank = (\<lambda>q c. map fst c),
      llm = (\<lambda>q d h. Return ''an answer''),
      float_str = (\<lambda>r. ''1.0''), py_sum = exact_sum, py_truediv = exact_truediv\<rparr>"

definition demo_unit :: Document where
  "demo_unit = \<lparr>page_content = ''Paris is the capital of France.'',
                metadata = [(''file'', VStr ''doc1.txt''), (''chunk'', VInt 0),
                            (''source_type'', VStr ''file''), (''document_id'', VStr ''uuid-0'')]\<rparr>"

definition demo_entry :: pydict where
  "demo_entry = [(''source_type'', VStr ''file''), (''timestamp'', VStr ''t0'')]"

text \<open>An engine opened on a directory in which an earlier process ingested one file.\<close>

definition reopened_engine :: RAGEngine where
  "reopened_engine =
     \<lparr>vector_store = [(''unit-0'', demo_unit)], current_web_ids = {}, latest_document_id = None,
      document_metadata = [(''uuid-0'', demo_entry)],
      metadata_path = Json_file [(''uuid-0'', demo_entry)], memory = []\<rparr>"

text \<open>An engine on an empty persistence directory, and a text file to upload.\<close>

definition fresh_engine :: RAGEngine where
  "fresh_engine =
     \<lparr>vector_store = [], current_web_ids = {}, latest_document_id = None,
      document_metadata = [], metadata_path = No_file, memory = []\<rparr>"

definition demo_file :: file_path where
  "demo_file = \<lparr>fp_name = ''doc1.txt'', fp_suffix = ''.txt'', fp_str = ''uploads/doc1.txt'',
                fp_size = 31\<rparr>"

definition latest_filter :: pydict where
  "latest_filter = [(''latest'', VBool True)]"

text \<open>The unit that \<open>demo_world\<close> parses out of \<open>demo_file\<close>.\<close>

definition plain_unit :: Document where
  "plain_unit = \<lparr>page_content = ''Paris is the capital of France.'',
                 metadata = [(''file'', VStr ''doc1.txt''), (''chunk'', VInt 0)]\<rparr>"

text \<open>The metadata \<open>ingest_file\<close> passes for \<open>demo_file\<close>, and the engine after that upload.\<close>

definition demo_file_metadata :: pydict where
  "demo_file_metadata =
     [(''file'', VStr ''doc1.txt''), (''source'', VStr ''uploads/doc1.txt''),
      (''ingestion_time'', VStr ''t1''), (''file_type'', VStr ''.txt''),
      (''file_size'', VInt 31), (''total_chunks'', VInt 1)]"

definition ingested_unit :: Document where
  "ingested_unit =
     \<lparr>page_content = ''Paris is the capital of France.'',
      metadata = [(''file'', VStr ''doc1.txt''), (''chunk'', VInt 0),
                  (''source_type'', VStr ''file''), (''document_id'', VStr ''uuid-1''),
                  (''source'', VStr ''uploads/doc1.txt''), (''ingestion_time'', VStr ''t1''),
                  (''file_type'', VStr ''.txt''), (''file_size'', VInt 31),
                  (''total_chunks'', VInt 1)]\<rparr>"

definition ingested_entry :: pydict where
  "ingested_entry =
     [(''source_type'', VStr ''file''), (''timestamp'', VStr ''t1''),
      (''file'', VStr ''doc1.txt''), (''source'', VStr ''uploads/doc1.txt''),
      (''ingestion_time'', VStr ''t1''), (''file_type'', VStr ''.txt''),
      (''file_size'', VInt 31), (''total_chunks'', VInt 1)]"

definition ingested_engine :: RAGEngine where
  "ingested_engine =
     \<lparr>vector_store = [(''unit-0'', ingested_unit)], current_web_ids = {},
      latest_document_id = Some ''uuid-1'',
      document_metadata = [(''uuid-1'', ingested_entry)],
      metadata_path = Json_file [(''uuid-1'', ingested_entry)], memory = []\<rparr>"

text \<open>
  The same engine with an older document beside the new one: a unit of document
  \<open>uuid-0\<close> that has the same file name and chunk number as the unit of \<open>uuid-1\<close>.
\<close>

definition two_document_engine :: RAGEngine where
  "two_document_engine =
     ingested_engine
       \<lparr>vector_store := [(''unit-9'', demo_unit), (''unit-0'', ingested_unit)],
        document_metadata := [(''uuid-0'', demo_entry), (''uuid-1'', ingested_entry)]\<rparr>"

text \<open>The process that made \<open>ingested_engine\<close> ends, and a new one opens the directory.\<close>

definition restarted_engine :: RAGEngine where
  "restarted_engine = ingested_engine\<lparr>latest_document_id := None\<rparr>"

text \<open>The units of two web pages, and the engine after the first and after the second.\<close>

definition web_unit :: "string \<Rightarrow> Document" where
  "web_unit url =
     \<lparr>page_content = ''hello'',
      metadata = [(''source'', VStr ''web''), (''url'', VStr url), (''chunk'', VInt 0),
                  (''title'', VStr url), (''id'', VStr (''web_'' @ url @ ''_0''))]\<rparr>"

definition after_page_a :: RAGEngine where
  "after_page_a = fresh_engine\<lparr>vector_store := [(''web_a_0'', web_unit ''a'')],
                               current_web_ids := {''web_a_0''}\<rparr>"

definition after_page_b :: RAGEngine where
  "after_page_b =
     fresh_engine\<lparr>vector_store := [(''web_a_0'', web_unit ''a''), (''web_b_0'', web_unit ''b'')],
                  current_web_ids := {''web_b_0''}\<rparr>"

text \<open>Caller metadata that names the two reserved keys, and what is stored for it.\<close>

definition forged_metadata :: pydict where
  "forged_metadata = [(''source_type'', VStr ''forged''), (''document_id'', VStr ''mine'')]"

definition forged_unit :: Document where
  "forged_unit =
     \<lparr>page_content = ''Paris is the capital of France.'',
      metadata = [(''file'', VStr ''doc1.txt''), (''chunk'', VInt 0),
                  (''source_type'', VStr ''forged''), (''document_id'', VStr ''mine'')]\<rparr>"

definition forged_entry :: pydict where
  "forged_entry = [(''source_type'', VStr ''forged''), (''timestamp'', VStr ''t1''),
                   (''document_id'', VStr ''mine'')]"

definition forged_engine :: RAGEngine where
  "forged_engine =
     \<lparr>vector_store = [(''unit-0'', forged_unit)], current_web_ids = {},
      latest_document_id = Some ''uuid-1'',
      document_metadata = [(''uuid-1'', forged_entry)],
      metadata_path = Json_file [(''uuid-1'', forged_entry)], memory = []\<rparr>"

definition renaming_metadata :: pydict where
  "renaming_metadata = [(''source_type'', VStr ''forged''), (''file'', VStr ''renamed.txt'')]"

text \<open>What is stored for \<open>plain_unit\<close> under \<open>renaming_metadata\<close>.\<close>

definition renamed_unit :: Document where
  "renamed_unit =
     \<lparr>page_content = ''Paris is the capital of France.'',
      metadata = [(''file'', VStr ''renamed.txt''), (''chunk'', VInt 0),
                  (''source_type'', VStr ''forged''), (''document_id'', VStr ''uuid-1'')]\<rparr>"

text \<open>
  A PDF of two pages. \<open>process_pdf_file\<close> splits the text of each page on its own, so
  the chunk number starts at 0 on every page: \<open>parsed_page\<close> is the unit it makes of a
  page whose text fits one chunk, and \<open>stored_page\<close> is that unit as \<open>ingest_file\<close>
  stores it.
\<close>

definition pdf_file :: file_path where
  "pdf_file = \<lparr>fp_name = ''x.pdf'', fp_suffix = ''.pdf'', fp_str = ''uploads/x.pdf'',
               fp_size = 2048\<rparr>"

definition parsed_page :: "int \<Rightarrow> string \<Rightarrow> Document" where
  "parsed_page n txt =
     \<lparr>page_content = txt,
      metadata = [(''file'', VStr ''x.pdf''), (''file_type'', VStr ''pdf''),
                  (''source'', VStr ''uploads/x.pdf''), (''page'', VInt n),
                  (''chunk'', VInt 0), (''chunk_size'', VInt (int (length txt)))]\<rparr>"

definition pdf_world :: world where
  "pdf_world =
     demo_world\<lparr>processor :=
       (\<lambda>f. Return [parsed_page 1 ''First page.'', parsed_page 2 ''Second page.''])\<rparr>"

definition stored_page :: "int \<Rightarrow> string \<Rightarrow> Document" where
  "stored_page n txt =
     \<lparr>page_content = txt,
      metadata = [(''file'', VStr ''x.pdf''), (''file_type'', VStr ''.pdf''),
                  (''source'', VStr ''uploads/x.pdf''), (''page'', VInt n),
                  (''chunk'', VInt 0), (''chunk_size'', VInt (int (length txt))),
                  (''source_type'', VStr ''file''), (''document_id'', VStr ''uuid-1''),
                  (''ingestion_time'', VStr ''t1''), (''file_size'', VInt 2048),
                  (''total_chunks'', VInt 2)]\<rparr>"

definition pdf_entry :: pydict where
  "pdf_entry =
     [(''source_type'', VStr ''file''), (''timestamp'', VStr ''t1''),
      (''file'', VStr ''x.pdf''), (''source'', VStr ''uploads/x.pdf''),
      (''ingestion_time'', VStr ''t1''), (''file_type'', VStr ''.pdf''),
      (''file_size'', VInt 2048), (''total_chunks'', VInt 2)]"

definition pdf_engine :: RAGEngine where
  "pdf_engine =
     \<lparr>vector_store = [(''unit-0'', stored_page 1 ''First page.''),
                      (''unit-1'', stored_page 2 ''Second page.'')],
      current_web_ids = {}, latest_document_id = Some ''uuid-1'',
      document_metadata = [(''uuid-1'', pdf_entry)],
      metadata_path = Json_file [(''uuid-1'', pdf_entry)], memory = []\<rparr>"

definition page_one_citation :: source_info where
  "page_one_citation =
     \<lparr>si_file = VStr ''x.pdf'', si_chunk = VInt 0, si_page = VInt 1,
      si_relevance = VFloat (Finite 1), si_metadata = Some pdf_entry\<rparr>"

text \<open>A world whose parsers and page fetch fail.\<close>

definition failing_world :: world where
  "failing_world =
     demo_world\<lparr>processor := (\<lambda>f. Raise (NormalizationError ''cannot parse'')),
                fetch := (\<lambda>u. Raise (FetchError ''connection refused''))\<rparr>"

section \<open>Vocabulary of the properties\<close>

text \<open>\<open>metadata or {}\<close>: the caller's mapping, empty when none is given.\<close>

definition caller_metadata :: "pydict option \<Rightarrow> pydict" where
  "caller_metadata md = (case md of None \<Rightarrow> [] | Some m \<Rightarrow> m)"

text \<open>
  Deduplication by a key in which the first occurrence wins: the reference against
  which the loop \<open>collect_sources\<close> is compared.
\<close>

fun keep_first :: "('a \<Rightarrow> 'k) \<Rightarrow> 'a list \<Rightarrow> 'a list" where
  "keep_first key [] = []"
| "keep_first key (x # xs) = x # filter (\<lambda>y. key y \<noteq> key x) (keep_first key xs)"

text \<open>The units that the chain retrieves for a query: none when the query short-circuits.\<close>

definition retrieved_units :: "world \<Rightarrow> RAGEngine \<Rightarrow> string \<Rightarrow> pydict option \<Rightarrow> Document list" where
  "retrieved_units w s question source_filter =
     (case resolve_source_filter s source_filter of
        Short_circuit \<Rightarrow> []
      | Use_filter flt \<Rightarrow> vs_search (rank w) 6 flt question (vector_store s))"

section \<open>Filter resolution\<close>

lemma resolve_latest_unset:
  "f \<noteq> [] \<Longrightarrow> truthy (dict_get_default f ''latest'' VNone) \<Longrightarrow> latest_document_id s = None \<Longrightarrow>
   resolve_source_filter s (Some f) = Short_circuit"
  by (simp add: resolve_source_filter_def)

lemma resolve_latest_set:
  assumes "f \<noteq> []" and "truthy (dict_get_default f ''latest'' VNone)"
    and "latest_document_id s = Some d" and "d \<noteq> []"
  shows "resolve_source_filter s (Some f) = Use_filter (Some [(''document_id'', VStr d)])"
  using assms by (simp add: resolve_source_filter_def)

lemma resolve_document_id_filter:
  "resolve_source_filter s (Some [(''document_id'', VStr d)]) =
     Use_filter (Some [(''document_id'', VStr d)])"
  by (simp add: resolve_source_filter_def dict_get_default_def)

lemma init_state:
  assumes "RAGEngine_init api_key store mfile = Return s"
  shows "latest_document_id s = None" and "vector_store s = store"
    and "document_metadata s = (case mfile of Json_file reg \<Rightarrow> reg | _ \<Rightarrow> [])"
    and "current_web_ids s = {}"
proof -
  from assms have s: "s = load_document_metadata
       \<lparr>vector_store = store, current_web_ids = {}, latest_document_id = None,
        document_metadata = [], metadata_path = mfile, memory = []\<rparr>"
    by (auto simp: RAGEngine_init_def split: option.splits if_splits)
  show "latest_document_id s = None"
    by (simp add: s load_document_metadata_def split: metadata_file.splits)
  show "vector_store s = store"
    by (simp add: s load_document_metadata_def split: metadata_file.splits)
  show "document_metadata s = (case mfile of Json_file reg \<Rightarrow> reg | _ \<Rightarrow> [])"
    by (simp add: s load_document_metadata_def split: metadata_file.splits)
  show "current_web_ids s = {}"
    by (simp add: s load_document_metadata_def split: metadata_file.splits)
qed

text \<open>
  Claim C10. The constructor sets \<open>latest_document_id\<close> to \<open>None\<close> and
  \<open>_load_document_metadata\<close> restores the registry only. So an engine opened on a
  persistence directory that already holds units and registry entries has them in its
  collection and registry, and still answers every query whose filter requests the latest
  document with the fixed message "No documents have been uploaded yet", without
  retrieval and without the model.
\<close>

section \<open>Dictionaries and the collection\<close>

lemma dict_update_lookup:
  "distinct (map fst m) \<Longrightarrow>
   map_of (dict_update d m) k = (case map_of m k of Some v \<Rightarrow> Some v | None \<Rightarrow> map_of d k)"
proof (induction m arbitrary: d)
  case Nil
  then show ?case by (simp add: dict_update_def)
next
  case (Cons p m)
  obtain a b where p: "p = (a, b)" by (cases p)
  from Cons.prems p have a: "map_of m a = None" and dm: "distinct (map fst m)"
    by (auto simp: map_of_eq_None_iff)
  have "map_of (dict_update d (p # m)) k = map_of (dict_update (AList.update a b d) m) k"
    by (simp add: dict_update_def p)
  also have "\<dots> = (case map_of m k of Some v \<Rightarrow> Some v | None \<Rightarrow> map_of (AList.update a b d) k)"
    by (rule Cons.IH [OF dm])
  also have "\<dots> = (case map_of (p # m) k of Some v \<Rightarrow> Some v | None \<Rightarrow> map_of d k)"
    using a by (auto simp: p update_conv' split: option.split)
  finally show ?case .
qed

lemma stamp_lookup:
  assumes "distinct (map fst (caller_metadata md))"
  shows "map_of (metadata (stamp source_type doc_id md doc)) k =
     (case map_of (caller_metadata md) k of
        Some v \<Rightarrow> Some v
      | None \<Rightarrow> if k = ''document_id'' then Some (VStr doc_id)
                else if k = ''source_type'' then Some (VStr source_type)
                else map_of (metadata doc) k)"
proof (cases md)
  case None
  then show ?thesis
    by (simp add: stamp_def caller_metadata_def update_conv')
next
  case (Some m)
  show ?thesis
  proof (cases "m = []")
    case True
    with Some show ?thesis
      by (simp add: stamp_def caller_metadata_def update_conv')
  next
    case False
    from assms Some have "distinct (map fst m)" by (simp add: caller_metadata_def)
    with False Some show ?thesis
      by (simp add: stamp_def caller_metadata_def dict_update_lookup update_conv'
               split: option.split)
  qed
qed

lemma map_upds_hit:
  "length ks = length vs \<Longrightarrow> k \<in> set ks \<Longrightarrow> \<exists>v \<in> set vs. (m(ks [\<mapsto>] vs)) k = Some v"
proof (induction ks vs arbitrary: m rule: list_induct2)
  case Nil
  then show ?case by simp
next
  case (Cons a as b bs)
  show ?case
  proof (cases "k \<in> set as")
    case True
    from Cons.IH [OF True, of "m(a \<mapsto> b)"] obtain v
      where v: "v \<in> set bs" "((m(a \<mapsto> b))(as [\<mapsto>] bs)) k = Some v" by blast
    from v(2) have "(m(a # as [\<mapsto>] b # bs)) k = Some v" by (simp only: map_upds_Cons)
    moreover from v(1) have "v \<in> set (b # bs)" by simp
    ultimately show ?thesis by blast
  next
    case False
    with Cons.prems have "k = a" by simp
    with False have "(m(a # as [\<mapsto>] b # bs)) k = Some b"
      by (simp add: map_upds_apply_nontin)
    moreover have "b \<in> set (b # bs)" by simp
    ultimately show ?thesis by blast
  qed
qed

lemma vs_add_documents_hit:
  assumes "length ids = length docs" and "i \<in> set ids"
  shows "\<exists>d \<in> set docs. map_of (vs_add_documents ids docs store) i = Some d"
  using map_upds_hit [OF assms, of "map_of store"]
  by (simp add: vs_add_documents_def updates_conv')

lemma add_documents_store:
  assumes "add_documents w s documents source_type md = (Return (), s')"
  shows "vector_store s' =
           vs_add_documents (map (chroma_ids w) [0..<length documents])
             (map (stamp source_type (new_uuid w) md) documents) (vector_store s)"
    and "latest_document_id s' = Some (new_uuid w)"
    and "document_metadata s' =
           AList.update (new_uuid w) (registry_entry source_type (now w) md) (document_metadata s)"
    and "save_ok w \<Longrightarrow> metadata_path s' = Json_file (document_metadata s')"
    and "current_web_ids s' = current_web_ids s"
  using assms
  by (auto simp: add_documents_def Let_def save_document_metadata_def split: if_splits)

section \<open>Frame properties of ingestion\<close>

lemma cleanup_web_results_frame:
  "latest_document_id (cleanup_web_results s) = latest_document_id s"
  "document_metadata (cleanup_web_results s) = document_metadata s"
  "metadata_path (cleanup_web_results s) = metadata_path s"
  "set (vector_store (cleanup_web_results s)) \<subseteq> set (vector_store s)"
  "current_web_ids (cleanup_web_results s) = {}"
  by (auto simp: cleanup_web_results_def Let_def vs_delete_def)

lemma ingest_web_page_frame:
  assumes "ingest_web_page w s url = (r, s')"
  shows "latest_document_id s' = latest_document_id s"
    and "document_metadata s' = document_metadata s"
    and "metadata_path s' = metadata_path s"
  using assms
  by (auto simp: ingest_web_page_def Let_def cleanup_web_results_frame
           split: result.splits if_splits)

lemma ingest_file_success:
  assumes "process_file w f = Return documents" and "documents \<noteq> []" and "store_ok w"
  shows "\<exists>md s'. add_documents w s documents ''file'' (Some md) = (Return (), s') \<and>
           ingest_file w s f = (Return True, s')"
proof -
  let ?md = "[(''file'', VStr (fp_name f)), (''source'', VStr (fp_str f)),
              (''ingestion_time'', VStr (now w)), (''file_type'', VStr (fp_suffix f)),
              (''file_size'', VInt (fp_size f)),
              (''total_chunks'', VInt (int (length documents)))]"
  from assms(3) obtain s' where a: "add_documents w s documents ''file'' (Some ?md) = (Return (), s')"
    by (simp add: add_documents_def Let_def)
  with assms(1,2) have "ingest_file w s f = (Return True, s')"
    by (simp add: ingest_file_def)
  with a show ?thesis by blast
qed

section \<open>Deduplication and retrieval\<close>

lemma keep_first_set: "set (keep_first key xs) \<subseteq> set xs"
  by (induction xs) auto

lemma collect_sources_keep_first:
  "collect_sources fstr reg seen docs =
     map (make_source_info reg)
       (filter (\<lambda>d. chunk_id fstr d \<notin> seen) (keep_first (chunk_id fstr) docs))"
proof (induction docs arbitrary: seen)
  case Nil
  then show ?case by simp
next
  case (Cons d docs)
  show ?case
  proof (cases "chunk_id fstr d \<in> seen")
    case True
    then have "filter (\<lambda>x. chunk_id fstr x \<notin> seen)
                 (filter (\<lambda>y. chunk_id fstr y \<noteq> chunk_id fstr d) (keep_first (chunk_id fstr) docs))
               = filter (\<lambda>x. chunk_id fstr x \<notin> seen) (keep_first (chunk_id fstr) docs)"
      by (auto simp: filter_filter intro: filter_cong)
    with True Cons show ?thesis by simp
  next
    case False
    have "filter (\<lambda>x. chunk_id fstr x \<notin> insert (chunk_id fstr d) seen) (keep_first (chunk_id fstr) docs)
          = filter (\<lambda>x. chunk_id fstr x \<notin> seen)
              (filter (\<lambda>y. chunk_id fstr y \<noteq> chunk_id fstr d) (keep_first (chunk_id fstr) docs))"
      by (auto simp: filter_filter intro: filter_cong)
    with False Cons show ?thesis by simp
  qed
qed

lemma query_sources:
  assumes "query w s question source_filter = (Return r, s')"
  shows "sources r = map (make_source_info (document_metadata s))
                       (keep_first (chunk_id (float_str w)) (retrieved_units w s question source_filter))"
proof (cases "resolve_source_filter s source_filter")
  case Short_circuit
  with assms show ?thesis by (auto simp: query_def retrieved_units_def)
next
  case (Use_filter flt)
  with assms show ?thesis
    by (auto simp: query_def retrieved_units_def chain_ainvoke_def Let_def collect_sources_keep_first
             split: result.splits if_splits option.splits)
qed

lemma map_filter_set: "set (List.map_filter g ys) = {v. \<exists>y \<in> set ys. g y = Some v}"
  by (induction ys) (auto simp: List.map_filter_simps split: option.splits)

lemma vs_search_matches:
  assumes "u \<in> set (vs_search rk k (Some f) question store)"
  shows "matches f u"
proof -
  let ?cands = "filter (\<lambda>(i, d). matches f d) store"
  have "set (vs_search rk k (Some f) question store)
          \<subseteq> set (List.map_filter (map_of ?cands) (rk question ?cands))"
    by (simp add: vs_search_def Let_def set_take_subset)
  with assms have "u \<in> set (List.map_filter (map_of ?cands) (rk question ?cands))"
    by (rule subsetD [rotated])
  then obtain i where "map_of ?cands i = Some u"
    unfolding map_filter_set by blast
  then have "(i, u) \<in> set ?cands" by (rule map_of_SomeD)
  then show ?thesis by simp
qed

section \<open>Web eviction\<close>

text \<open>
  Claim C1. The sentence of the specification: after web page B has been ingested
  following web page A, no unit of A's batch remains in the index. In
  \<open>_cleanup_web_results\<close> the deletion stands under the test \<open>if docs_to_keep\<close>:
  when every id of the collection is a web id, nothing is deleted, and the set of
  current web ids is cleared all the same. On an engine that holds web content only,
  page \<open>a\<close> then page \<open>b\<close>: the unit \<open>web_a_0\<close> is still in the collection after
  \<open>b\<close>, and the engine has lost track of it.
\<close>

theorem web_units_survive_next_web_ingestion:
  "ingest_web_page demo_world fresh_engine ''a'' = (Return True, after_page_a) \<and>
   current_web_ids after_page_a = {''web_a_0''} \<and>
   ingest_web_page demo_world after_page_a ''b'' = (Return True, after_page_b) \<and>
   map fst (vector_store after_page_b) = [''web_a_0'', ''web_b_0''] \<and>
   current_web_ids after_page_b = {''web_b_0''}"
  by (simp add: ingest_web_page_def cleanup_web_results_def demo_world_def fresh_engine_def
      web_doc_id_def web_document_def vs_add_documents_def vs_delete_def str_of_nat.simps
      digit_char_def web_unit_def after_page_a_def after_page_b_def)

section \<open>Reserved metadata keys\<close>

text \<open>
  Claim C2. \<open>add_documents\<close> sets \<open>source_type\<close> and \<open>document_id\<close> on a unit and
  then merges the caller's mapping over them, so a key of the caller wins. What holds:
  after a call that returns, every unit of the call is in the collection, and each of
  the two reserved keys has the caller's value when the caller's mapping has the key,
  and the ingestion's source type, respectively the fresh id, when it has not.
\<close>

theorem add_documents_stamps_with_caller_priority:
  assumes "add_documents w s documents source_type md = (Return (), s')"
    and "i < length documents"
    and "distinct (map fst (caller_metadata md))"
  shows "\<exists>d. map_of (vector_store s') (chroma_ids w i) = Some d \<and>
           dict_get (metadata d) ''source_type'' =
             (case dict_get (caller_metadata md) ''source_type'' of
                Some v \<Rightarrow> Some v | None \<Rightarrow> Some (VStr source_type)) \<and>
           dict_get (metadata d) ''document_id'' =
             (case dict_get (caller_metadata md) ''document_id'' of
                Some v \<Rightarrow> Some v | None \<Rightarrow> Some (VStr (new_uuid w)))"
proof -
  let ?ids = "map (chroma_ids w) [0..<length documents]"
  let ?docs = "map (stamp source_type (new_uuid w) md) documents"
  have "length ?ids = length ?docs" by simp
  moreover have "chroma_ids w i \<in> set ?ids" using assms(2) by simp
  ultimately obtain d where d: "d \<in> set ?docs"
    "map_of (vs_add_documents ?ids ?docs (vector_store s)) (chroma_ids w i) = Some d"
    using vs_add_documents_hit by blast
  from d(1) obtain doc where "d = stamp source_type (new_uuid w) md doc" by auto
  then have "dict_get (metadata d) ''source_type'' =
             (case dict_get (caller_metadata md) ''source_type'' of
                Some v \<Rightarrow> Some v | None \<Rightarrow> Some (VStr source_type))"
    and "dict_get (metadata d) ''document_id'' =
             (case dict_get (caller_metadata md) ''document_id'' of
                Some v \<Rightarrow> Some v | None \<Rightarrow> Some (VStr (new_uuid w)))"
    by (simp_all add: dict_get_def stamp_lookup [OF assms(3)])
  with d(2) add_documents_store(1) [OF assms(1)] show ?thesis by simp
qed

theorem add_documents_stamps_with_caller_priority_witness:
  "add_documents demo_world fresh_engine [plain_unit] ''file'' (Some renaming_metadata) =
     (Return (),
      snd (add_documents demo_world fresh_engine [plain_unit] ''file'' (Some renaming_metadata))) \<and>
   (0::nat) < length [plain_unit] \<and>
   distinct (map fst (caller_metadata (Some renaming_metadata))) \<and>
   map_of (vector_store
       (snd (add_documents demo_world fresh_engine [plain_unit] ''file'' (Some renaming_metadata))))
     (chroma_ids demo_world 0) = Some renamed_unit \<and>
   dict_get (metadata renamed_unit) ''source_type'' = Some (VStr ''forged'') \<and>
   dict_get (metadata renamed_unit) ''document_id'' = Some (VStr ''uuid-1'')"
  using add_documents_stamps_with_caller_priority
    [of demo_world fresh_engine "[plain_unit]" "''file''" "Some renaming_metadata"
        "snd (add_documents demo_world fresh_engine [plain_unit] ''file'' (Some renaming_metadata))" 0]
  by (simp add: add_documents_def stamp_def registry_entry_def dict_update_def
      save_document_metadata_def vs_add_documents_def caller_metadata_def dict_get_def Let_def
      demo_world_def fresh_engine_def plain_unit_def renaming_metadata_def renamed_unit_def
      str_of_nat.simps digit_char_def)

text \<open>
  A caller whose mapping names both reserved keys: the stored unit has the caller's
  \<open>source_type\<close> and \<open>document_id\<close>, not \<open>file\<close> and the fresh id \<open>uuid-1\<close>.
\<close>

theorem caller_metadata_overwrites_reserved_keys:
  "add_documents demo_world fresh_engine [plain_unit] ''file'' (Some forged_metadata) =
     (Return (), forged_engine) \<and>
   new_uuid demo_world = ''uuid-1'' \<and>
   map_of (vector_store forged_engine) ''unit-0'' = Some forged_unit \<and>
   dict_get (metadata forged_unit) ''source_type'' = Some (VStr ''forged'') \<and>
   dict_get (metadata forged_unit) ''document_id'' = Some (VStr ''mine'') \<and>
   map_of (document_metadata forged_engine) ''uuid-1'' = Some forged_entry"
  by (simp add: add_documents_def stamp_def registry_entry_def dict_update_def
      save_document_metadata_def vs_add_documents_def dict_get_def Let_def
      demo_world_def fresh_engine_def plain_unit_def forged_metadata_def forged_unit_def
      forged_entry_def forged_engine_def str_of_nat.simps digit_char_def)

section \<open>The registry entry of an ingestion\<close>

text \<open>
  Claim C3. The fresh document id, the registry entry, \<open>latest_document_id\<close> and the
  write of the registry file are the work of \<open>add_documents\<close>. \<open>ingest_file\<close> goes
  through it; \<open>ingest_web_page\<close> writes its units to the collection directly. What
  holds: a call of \<open>add_documents\<close> that returns has set \<open>latest_document_id\<close> to the
  fresh id, recorded the entry of that id and, when the file can be written, persisted
  the registry; a file whose parser gives at least one unit, on a collection that
  accepts the write, is ingested with all of this; and a web ingestion, whatever it
  returns, leaves \<open>latest_document_id\<close>, the registry and the registry file as they
  were.
\<close>

theorem documents_registered_by_add_documents_only:
  "(add_documents w s documents source_type md = (Return (), s1) \<longrightarrow>
      latest_document_id s1 = Some (new_uuid w) \<and>
      map_of (document_metadata s1) (new_uuid w) = Some (registry_entry source_type (now w) md) \<and>
      (save_ok w \<longrightarrow> metadata_path s1 = Json_file (document_metadata s1))) \<and>
   (process_file w f = Return units \<and> units \<noteq> [] \<and> store_ok w \<longrightarrow>
      (\<exists>s2. ingest_file w s f = (Return True, s2) \<and>
         latest_document_id s2 = Some (new_uuid w) \<and>
         new_uuid w \<in> fst ` set (document_metadata s2) \<and>
         (save_ok w \<longrightarrow> metadata_path s2 = Json_file (document_metadata s2)))) \<and>
   (ingest_web_page w s url = (r, s3) \<longrightarrow>
      latest_document_id s3 = latest_document_id s \<and>
      document_metadata s3 = document_metadata s \<and>
      metadata_path s3 = metadata_path s)"
proof (intro conjI impI)
  assume a: "add_documents w s documents source_type md = (Return (), s1)"
  show "latest_document_id s1 = Some (new_uuid w)"
    using a by (rule add_documents_store)
  show "map_of (document_metadata s1) (new_uuid w) = Some (registry_entry source_type (now w) md)"
    by (simp add: add_documents_store(3) [OF a] update_conv')
  show "metadata_path s1 = Json_file (document_metadata s1)" if "save_ok w"
    using a that by (rule add_documents_store)
next
  assume p: "process_file w f = Return units \<and> units \<noteq> [] \<and> store_ok w"
  then obtain md s2 where a: "add_documents w s units ''file'' (Some md) = (Return (), s2)"
    and i: "ingest_file w s f = (Return True, s2)"
    using ingest_file_success [of w f units s] by blast
  have "map_of (document_metadata s2) (new_uuid w) = Some (registry_entry ''file'' (now w) (Some md))"
    by (simp add: add_documents_store(3) [OF a] update_conv')
  then have "new_uuid w \<in> fst ` set (document_metadata s2)"
    by (metis domI dom_map_of_conv_image_fst)
  moreover have "latest_document_id s2 = Some (new_uuid w)"
    using a by (rule add_documents_store)
  moreover have "save_ok w \<longrightarrow> metadata_path s2 = Json_file (document_metadata s2)"
    using add_documents_store(4) [OF a] by simp
  ultimately show "\<exists>s2. ingest_file w s f = (Return True, s2) \<and>
         latest_document_id s2 = Some (new_uuid w) \<and>
         new_uuid w \<in> fst ` set (document_metadata s2) \<and>
         (save_ok w \<longrightarrow> metadata_path s2 = Json_file (document_metadata s2))"
    using i by blast
next
  assume w: "ingest_web_page w s url = (r, s3)"
  show "latest_document_id s3 = latest_document_id s" using w by (rule ingest_web_page_frame)
  show "document_metadata s3 = document_metadata s" using w by (rule ingest_web_page_frame)
  show "metadata_path s3 = metadata_path s" using w by (rule ingest_web_page_frame)
qed

theorem documents_registered_by_add_documents_only_witness:
  "add_documents demo_world fresh_engine [plain_unit] ''file'' (Some demo_file_metadata) =
     (Return (), ingested_engine) \<and>
   latest_document_id ingested_engine = Some (new_uuid demo_world) \<and>
   map_of (document_metadata ingested_engine) (new_uuid demo_world) = Some ingested_entry \<and>
   save_ok demo_world \<and>
   metadata_path ingested_engine = Json_file (document_metadata ingested_engine) \<and>
   process_file demo_world demo_file = Return [plain_unit] \<and> [plain_unit] \<noteq> [] \<and>
   store_ok demo_world \<and>
   ingest_file demo_world fresh_engine demo_file = (Return True, ingested_engine) \<and>
   ingest_web_page demo_world fresh_engine ''a'' = (Return True, after_page_a) \<and>
   latest_document_id after_page_a = latest_document_id fresh_engine \<and>
   document_metadata after_page_a = document_metadata fresh_engine \<and>
   metadata_path after_page_a = metadata_path fresh_engine"
  using documents_registered_by_add_documents_only
    [of demo_world fresh_engine "[plain_unit]" "''file''" "Some demo_file_metadata"
        ingested_engine demo_file "[plain_unit]" "''a''" "Return True" after_page_a]
  by (simp add: add_documents_def stamp_def registry_entry_def dict_update_def
      save_document_metadata_def vs_add_documents_def Let_def ingest_file_def process_file_def
      supported_suffixes_def ingest_web_page_def cleanup_web_results_def web_doc_id_def
      web_document_def web_unit_def after_page_a_def
      demo_world_def fresh_engine_def plain_unit_def demo_file_def demo_file_metadata_def
      ingested_unit_def ingested_entry_def ingested_engine_def str_of_nat.simps digit_char_def)

text \<open>
  A web page ingested into an empty engine: the call returns \<open>True\<close> and its unit is in
  the collection, and there is no latest document, no registry entry and no registry
  file.
\<close>

theorem web_ingestion_records_no_document:
  "ingest_web_page demo_world fresh_engine ''a'' = (Return True, after_page_a) \<and>
   vector_store after_page_a = [(''web_a_0'', web_unit ''a'')] \<and>
   latest_document_id after_page_a = None \<and>
   document_metadata after_page_a = [] \<and>
   metadata_path after_page_a = No_file"
  by (simp add: ingest_web_page_def cleanup_web_results_def demo_world_def fresh_engine_def
      web_doc_id_def web_document_def vs_add_documents_def str_of_nat.simps
      digit_char_def web_unit_def after_page_a_def)

section \<open>A failing normalizer\<close>

text \<open>
  Claim C4. \<open>ingest_file\<close> and \<open>ingest_web_page\<close> catch every exception and return
  \<open>False\<close>; no error reaches the caller. What holds: when \<open>process_file\<close> raises,
  \<open>ingest_file\<close> returns \<open>False\<close> and the engine is as it was; when the fetch of a page
  raises or answers with a status other than 200, \<open>ingest_web_page\<close> returns \<open>False\<close>,
  and the engine is what the cleanup of the earlier web results, which runs before the
  fetch, has made of it: no unit is added, and the registry and \<open>latest_document_id\<close>
  are as they were.
\<close>

theorem failed_normalizer_returns_false:
  "(process_file w f = Raise e \<longrightarrow> ingest_file w s f = (Return False, s)) \<and>
   ((fetch w url = Raise e \<or> (\<exists>page. fetch w url = Return page \<and> status page \<noteq> 200)) \<longrightarrow>
      ingest_web_page w s url = (Return False, cleanup_web_results s) \<and>
      set (vector_store (cleanup_web_results s)) \<subseteq> set (vector_store s) \<and>
      document_metadata (cleanup_web_results s) = document_metadata s \<and>
      latest_document_id (cleanup_web_results s) = latest_document_id s)"
  by (auto simp: ingest_file_def ingest_web_page_def Let_def cleanup_web_results_frame
         dest: subsetD [OF cleanup_web_results_frame(4)])

theorem failed_normalizer_returns_false_witness:
  "process_file failing_world demo_file = Raise (NormalizationError ''cannot parse'') \<and>
   ingest_file failing_world ingested_engine demo_file = (Return False, ingested_engine) \<and>
   fetch failing_world ''b'' = Raise (FetchError ''connection refused'') \<and>
   ingest_web_page failing_world after_page_a ''b'' =
     (Return False, cleanup_web_results after_page_a) \<and>
   vector_store (cleanup_web_results after_page_a) = vector_store after_page_a \<and>
   document_metadata (cleanup_web_results after_page_a) = document_metadata after_page_a \<and>
   latest_document_id (cleanup_web_results after_page_a) = latest_document_id after_page_a"
  using failed_normalizer_returns_false
    [of failing_world demo_file "NormalizationError ''cannot parse''" ingested_engine "''b''"]
    failed_normalizer_returns_false
    [of failing_world demo_file "FetchError ''connection refused''" after_page_a "''b''"]
  by (simp add: process_file_def supported_suffixes_def failing_world_def demo_world_def
      demo_file_def cleanup_web_results_def after_page_a_def fresh_engine_def)

text \<open>
  A file whose parser raises, and a page whose fetch raises: each call returns the value
  \<open>False\<close>, not an error.
\<close>

theorem failed_ingestion_raises_no_error:
  "process_file failing_world demo_file = Raise (NormalizationError ''cannot parse'') \<and>
   ingest_file failing_world fresh_engine demo_file = (Return False, fresh_engine) \<and>
   fetch failing_world ''b'' = Raise (FetchError ''connection refused'') \<and>
   ingest_web_page failing_world fresh_engine ''b'' = (Return False, fresh_engine)"
  by (simp add: ingest_file_def process_file_def supported_suffixes_def ingest_web_page_def
      cleanup_web_results_def failing_world_def demo_world_def demo_file_def fresh_engine_def)

section \<open>The latest-document filter\<close>

text \<open>
  Claim C5. The filter is rewritten when \<open>latest_document_id\<close> is set, which is not
  the same as a document having been ingested: the field is set by \<open>add_documents\<close>
  only, and a new engine starts with \<open>None\<close>. What holds: when the filter requests the
  latest document and \<open>latest_document_id\<close> is the non-empty id \<open>d\<close>, the query is the
  query with the filter \<open>{"document_id": d}\<close>; the search runs with that filter, every
  retrieved unit has \<open>document_id = d\<close>, and every citation of the response is the
  citation of such a unit. That the search returns only units matching its filter is
  the specification's description of the Vector Index.
\<close>

theorem latest_filter_rewritten_when_latest_set:
  assumes "f \<noteq> []" and "truthy (dict_get_default f ''latest'' VNone)"
    and "latest_document_id s = Some d" and "d \<noteq> []"
  shows "resolve_source_filter s (Some f) = Use_filter (Some [(''document_id'', VStr d)]) \<and>
         query w s question (Some f) = query w s question (Some [(''document_id'', VStr d)]) \<and>
         retrieved_units w s question (Some f) =
           vs_search (rank w) 6 (Some [(''document_id'', VStr d)]) question (vector_store s) \<and>
         (\<forall>u \<in> set (retrieved_units w s question (Some f)).
            dict_get (metadata u) ''document_id'' = Some (VStr d)) \<and>
         (\<forall>r s'. query w s question (Some f) = (Return r, s') \<longrightarrow>
            (\<forall>c \<in> set (sources r). \<exists>u \<in> set (retrieved_units w s question (Some f)).
               c = make_source_info (document_metadata s) u \<and>
               dict_get (metadata u) ''document_id'' = Some (VStr d)))"
proof -
  have r: "resolve_source_filter s (Some f) = Use_filter (Some [(''document_id'', VStr d)])"
    using assms by (rule resolve_latest_set)
  have q: "query w s question (Some f) = query w s question (Some [(''document_id'', VStr d)])"
    unfolding query_def r resolve_document_id_filter by (rule refl)
  have ru: "retrieved_units w s question (Some f) =
           vs_search (rank w) 6 (Some [(''document_id'', VStr d)]) question (vector_store s)"
    by (simp add: retrieved_units_def r)
  have u: "dict_get (metadata u) ''document_id'' = Some (VStr d)"
    if "u \<in> set (retrieved_units w s question (Some f))" for u
  proof -
    from that have "matches [(''document_id'', VStr d)] u"
      unfolding ru by (rule vs_search_matches)
    then show ?thesis by (simp add: matches_def dict_get_def)
  qed
  have c: "\<exists>u \<in> set (retrieved_units w s question (Some f)).
               c = make_source_info (document_metadata s) u \<and>
               dict_get (metadata u) ''document_id'' = Some (VStr d)"
    if "query w s question (Some f) = (Return r, s')" and "c \<in> set (sources r)" for r s' c
  proof -
    have "sources r = map (make_source_info (document_metadata s))
            (keep_first (chunk_id (float_str w)) (retrieved_units w s question (Some f)))"
      using that(1) by (rule query_sources)
    with that(2) have "c \<in> make_source_info (document_metadata s) `
            set (keep_first (chunk_id (float_str w)) (retrieved_units w s question (Some f)))"
      by (simp only: set_map)
    then obtain u
      where "u \<in> set (keep_first (chunk_id (float_str w)) (retrieved_units w s question (Some f)))"
        and "c = make_source_info (document_metadata s) u"
      by blast
    moreover from this(1) have "u \<in> set (retrieved_units w s question (Some f))"
      by (rule subsetD [OF keep_first_set])
    ultimately show ?thesis using u [of u] by blast
  qed
  from u have u': "\<forall>u \<in> set (retrieved_units w s question (Some f)).
            dict_get (metadata u) ''document_id'' = Some (VStr d)"
    by blast
  from c have c': "\<forall>r s'. query w s question (Some f) = (Return r, s') \<longrightarrow>
            (\<forall>c \<in> set (sources r). \<exists>u \<in> set (retrieved_units w s question (Some f)).
               c = make_source_info (document_metadata s) u \<and>
               dict_get (metadata u) ''document_id'' = Some (VStr d))"
    by blast
  show ?thesis
    apply (intro conjI)
        apply (rule r)
       apply (rule q)
      apply (rule ru)
     apply (rule u')
    apply (rule c')
    done
qed

theorem latest_filter_rewritten_when_latest_set_witness:
  "latest_filter \<noteq> [] \<and>
   truthy (dict_get_default latest_filter ''latest'' VNone) \<and>
   latest_document_id two_document_engine = Some ''uuid-1'' \<and> ''uuid-1'' \<noteq> [] \<and>
   resolve_source_filter two_document_engine (Some latest_filter) =
     Use_filter (Some [(''document_id'', VStr ''uuid-1'')]) \<and>
   retrieved_units demo_world two_document_engine ''q'' None = [demo_unit, ingested_unit] \<and>
   retrieved_units demo_world two_document_engine ''q'' (Some latest_filter) = [ingested_unit] \<and>
   dict_get (metadata ingested_unit) ''document_id'' = Some (VStr ''uuid-1'')"
  using latest_filter_rewritten_when_latest_set
    [of latest_filter two_document_engine "''uuid-1''" demo_world "''q''"]
  by (simp add: retrieved_units_def resolve_source_filter_def vs_search_def matches_def
      dict_get_default_def dict_get_def List.map_filter_simps Let_def
      latest_filter_def two_document_engine_def ingested_engine_def ingested_unit_def
      demo_unit_def demo_world_def)

text \<open>
  A file is ingested, the process ends, and a new engine is opened on the same
  directory: the unit and the registry entry are there, and the query for the latest
  document retrieves nothing and answers that no document has been uploaded. The same
  answer is given after a web page has been ingested into an empty engine.
\<close>

theorem latest_filter_short_circuits_with_documents_present:
  "ingest_file demo_world fresh_engine demo_file = (Return True, ingested_engine) \<and>
   RAGEngine_init (Some ''key'') (vector_store ingested_engine) (metadata_path ingested_engine) =
     Return restarted_engine \<and>
   vector_store restarted_engine = [(''unit-0'', ingested_unit)] \<and>
   document_metadata restarted_engine = [(''uuid-1'', ingested_entry)] \<and>
   retrieved_units demo_world restarted_engine ''q'' (Some latest_filter) = [] \<and>
   query demo_world restarted_engine ''q'' (Some latest_filter) =
     (Return \<lparr>answer = no_documents_answer, sources = [], confidence = None\<rparr>,
      restarted_engine) \<and>
   ingest_web_page demo_world fresh_engine ''a'' = (Return True, after_page_a) \<and>
   query demo_world after_page_a ''q'' (Some latest_filter) =
     (Return \<lparr>answer = no_documents_answer, sources = [], confidence = None\<rparr>, after_page_a)"
  by (simp add: add_documents_def stamp_def registry_entry_def dict_update_def
      save_document_metadata_def vs_add_documents_def Let_def ingest_file_def process_file_def
      supported_suffixes_def ingest_web_page_def cleanup_web_results_def web_doc_id_def
      web_document_def web_unit_def after_page_a_def RAGEngine_init_def
      load_document_metadata_def restarted_engine_def
      retrieved_units_def query_def resolve_source_filter_def dict_get_default_def
      latest_filter_def demo_world_def fresh_engine_def demo_file_def
      ingested_unit_def ingested_entry_def ingested_engine_def str_of_nat.simps digit_char_def)

section \<open>The empty state\<close>

text \<open>
  Claim C6. A query for the latest document on an engine into which nothing has been
  ingested. \<open>RAGEngine.query\<close> returns the fixed answer "No documents have been
  uploaded yet" and no sources, without retrieval and without the model (the memory is
  unchanged), and its response has no confidence. \<open>chat\<close> then finds the sources
  empty, sets the confidence to 0.0 and replaces the answer: the caller of \<open>chat\<close>
  reads "I could not find any relevant information", a different text.
\<close>

theorem empty_state_answer_replaced_by_chat:
  "latest_document_id fresh_engine = None \<and>
   query demo_world fresh_engine ''q'' (Some latest_filter) =
     (Return \<lparr>answer = no_documents_answer, sources = [], confidence = None\<rparr>, fresh_engine) \<and>
   chat demo_world fresh_engine ''q'' (Some latest_filter) =
     (Return \<lparr>cr_answer = no_relevant_answer, cr_sources = [],
              cr_confidence = Some (Finite 0)\<rparr>,
      fresh_engine) \<and>
   no_relevant_answer \<noteq> no_documents_answer"
  by (simp add: chat_def query_def resolve_source_filter_def latest_filter_def fresh_engine_def
      dict_get_default_def no_relevant_answer_def no_documents_answer_def)

section \<open>The answer when no citation remains\<close>

text \<open>
  Claim C7. A question on an engine whose index holds no unit, put through \<open>chat\<close>;
  the model answers with the text \<open>an answer\<close>. Nothing is retrieved, so no citation
  remains. \<open>RAGEngine.query\<close> sets the confidence to 0.0 and keeps the model's
  answer, since its overwrite stands under \<open>if not response["answer"]\<close>. \<open>chat\<close>
  then finds the sources empty and replaces the answer with the fixed message without
  that test: the caller reads "I could not find any relevant information" although
  the model produced an answer.
\<close>

theorem chat_replaces_model_answer:
  "retrieved_units demo_world fresh_engine ''q'' None = [] \<and>
   llm demo_world ''q'' [] (memory fresh_engine) = Return ''an answer'' \<and>
   query demo_world fresh_engine ''q'' None =
     (Return \<lparr>answer = ''an answer'', sources = [], confidence = Some (Finite 0)\<rparr>,
      fresh_engine\<lparr>memory := [(''q'', ''an answer'')]\<rparr>) \<and>
   chat demo_world fresh_engine ''q'' None =
     (Return \<lparr>cr_answer = no_relevant_answer, cr_sources = [],
              cr_confidence = Some (Finite 0)\<rparr>,
      fresh_engine\<lparr>memory := [(''q'', ''an answer'')]\<rparr>) \<and>
   no_relevant_answer \<noteq> ''an answer''"
  by (simp add: chat_def query_def chain_ainvoke_def vs_search_def resolve_source_filter_def
      retrieved_units_def List.map_filter_simps Let_def no_relevant_answer_def
      fresh_engine_def demo_world_def)

section \<open>Citations\<close>

text \<open>
  Claim C8. A PDF of two pages is ingested and a question retrieves the unit of page 1
  and then the unit of page 2. The key of line 346 is \<open>f"{file}_{chunk}"\<close>: the page
  is no part of it, and the chunk number is 0 on both pages, so both units have the key
  \<open>x.pdf_0\<close>. The response of \<open>RAGEngine.query\<close> has the citation of page 1 only;
  the citation of page 2, a different text of a different page, is dropped as a
  duplicate. The citation that is kept carries the registry entry of its document in
  \<open>RAGEngine.query\<close>; \<open>chat\<close> looks that entry up under a \<open>document_id\<close> that
  the citation does not have, and returns the citation without it.
\<close>

theorem pdf_pages_share_citation_key:
  "ingest_file pdf_world fresh_engine pdf_file = (Return True, pdf_engine) \<and>
   retrieved_units pdf_world pdf_engine ''q'' None =
     [stored_page 1 ''First page.'', stored_page 2 ''Second page.''] \<and>
   dict_get (metadata (stored_page 1 ''First page.'')) ''page'' = Some (VInt 1) \<and>
   dict_get (metadata (stored_page 2 ''Second page.'')) ''page'' = Some (VInt 2) \<and>
   chunk_id (float_str pdf_world) (stored_page 1 ''First page.'') = ''x.pdf_0'' \<and>
   chunk_id (float_str pdf_world) (stored_page 2 ''Second page.'') = ''x.pdf_0'' \<and>
   query pdf_world pdf_engine ''q'' None =
     (Return \<lparr>answer = ''an answer'', sources = [page_one_citation],
              confidence = Some (Finite 1)\<rparr>,
      pdf_engine\<lparr>memory := [(''q'', ''an answer'')]\<rparr>) \<and>
   si_page page_one_citation = VInt 1 \<and>
   si_metadata page_one_citation = map_of (document_metadata pdf_engine) ''uuid-1'' \<and>
   chat pdf_world pdf_engine ''q'' None =
     (Return \<lparr>cr_answer = ''an answer'',
              cr_sources = [\<lparr>cs_type = ''document'', cs_file = VStr ''x.pdf'',
                              cs_page = VInt 1, cs_document_id = VStr [],
                              cs_relevance = VFloat (Finite 1), cs_metadata = None\<rparr>],
              cr_confidence = None\<rparr>,
      pdf_engine\<lparr>memory := [(''q'', ''an answer'')]\<rparr>)"
  by (simp add: ingest_file_def process_file_def supported_suffixes_def add_documents_def
      stamp_def registry_entry_def dict_update_def save_document_metadata_def
      vs_add_documents_def chat_def format_source_def query_def chain_ainvoke_def
      vs_search_def resolve_source_filter_def retrieved_units_def chunk_id_def
      make_source_info_def dict_get_default_def dict_get_def List.map_filter_simps Let_def
      str_of_int_def exact_sum_def exact_truediv_def
      pdf_world_def pdf_file_def parsed_page_def stored_page_def pdf_entry_def pdf_engine_def
      page_one_citation_def fresh_engine_def demo_world_def str_of_nat.simps digit_char_def)

section \<open>A reopened engine\<close>

text \<open>
  Claim C10. The constructor sets \<open>latest_document_id\<close> to \<open>None\<close> and
  \<open>_load_document_metadata\<close> restores the registry only. So an engine opened on a
  persistence directory that already holds units and registry entries has them in its
  collection and registry, and still answers every query whose filter requests the latest
  document with the fixed message "No documents have been uploaded yet", without
  retrieval and without the model.
\<close>

theorem latest_not_restored_on_init:
  assumes "RAGEngine_init api_key store mfile = Return s"
    and "f \<noteq> []" and "truthy (dict_get_default f ''latest'' VNone)"
  shows "latest_document_id s = None \<and> vector_store s = store \<and>
         document_metadata s = (case mfile of Json_file reg \<Rightarrow> reg | _ \<Rightarrow> []) \<and>
         query w s question (Some f) =
           (Return \<lparr>answer = no_documents_answer, sources = [], confidence = None\<rparr>, s)"
proof -
  have l: "latest_document_id s = None"
    using assms(1) by (rule init_state)
  have "resolve_source_filter s (Some f) = Short_circuit"
    using assms(2,3) l by (rule resolve_latest_unset)
  then have q: "query w s question (Some f) =
           (Return \<lparr>answer = no_documents_answer, sources = [], confidence = None\<rparr>, s)"
    by (simp add: query_def)
  from l init_state(2,3) [OF assms(1)] q show ?thesis by simp
qed

theorem latest_not_restored_on_init_witness:
  "RAGEngine_init (Some ''key'') [(''unit-0'', demo_unit)] (Json_file [(''uuid-0'', demo_entry)])
     = Return reopened_engine \<and>
   [(''latest'', VBool True)] \<noteq> [] \<and>
   truthy (dict_get_default [(''latest'', VBool True)] ''latest'' VNone) \<and>
   latest_document_id reopened_engine = None \<and>
   vector_store reopened_engine = [(''unit-0'', demo_unit)] \<and>
   document_metadata reopened_engine = [(''uuid-0'', demo_entry)] \<and>
   query demo_world reopened_engine ''What is the capital of France?''
       (Some [(''latest'', VBool True)]) =
     (Return \<lparr>answer = no_documents_answer, sources = [], confidence = None\<rparr>, reopened_engine)"
proof -
  have i: "RAGEngine_init (Some ''key'') [(''unit-0'', demo_unit)]
             (Json_file [(''uuid-0'', demo_entry)]) = Return reopened_engine"
    by (simp add: RAGEngine_init_def load_document_metadata_def reopened_engine_def)
  have t: "truthy (dict_get_default [(''latest'', VBool True)] ''latest'' VNone)"
    by (simp add: dict_get_default_def)
  show ?thesis
    using i t latest_not_restored_on_init
      [OF i _ t, of demo_world "''What is the capital of France?''"]
    by simp
qed

end
